theory Spec2Isabelle
  imports Main
begin

section \<open>The REST gateway of \<^verbatim>\<open>src/services/api/ApiServer.ts\<close>\<close>

text \<open>
  The class \<^verbatim>\<open>ApiServer\<close> owns one mutable field that matters here,
  \<^verbatim>\<open>taskIdMap: Map<string, string>\<close>, and two handlers that call the editor through
  \<^verbatim>\<open>vscode.commands.executeCommand\<close>. The embedding passes the server state explicitly and
  takes the editor as a parameter.

  Request fields are taken at the types the code gives them: the key and the value of
  \<^verbatim>\<open>taskIdMap\<close> are strings, the command result is cast to \<^verbatim>\<open>string | null\<close>. A field that
  is missing from the body (\<^verbatim>\<open>undefined\<close>) or \<^verbatim>\<open>null\<close> is \<open>None\<close>. Image payloads and
  the payload returned by \<^verbatim>\<open>cline.addMessageToTask\<close> are never inspected by the handlers, so
  they are type parameters.
\<close>

subsection \<open>Values\<close>

text \<open>
  JavaScript truthiness of a \<^verbatim>\<open>string | null | undefined\<close>: \<^verbatim>\<open>undefined\<close>, \<^verbatim>\<open>null\<close> and the
  empty string are falsy, every other string is truthy.
\<close>

fun truthy :: "string option \<Rightarrow> bool" where
  "truthy None = False"
| "truthy (Some s) = (s \<noteq> [])"

text \<open>
  What a \<^verbatim>\<open>catch (error)\<close> may receive. The editor can throw any value: an instance of
  \<^verbatim>\<open>Error\<close> (with the \<^verbatim>\<open>toString\<close> it inherits, and its \<^verbatim>\<open>message\<close>), or a value that
  is not an \<^verbatim>\<open>Error\<close>. Of the latter, strings, booleans, \<^verbatim>\<open>null\<close>, \<^verbatim>\<open>undefined\<close> and
  symbols (with their description, if any) are modelled as they are. Every other value (a
  number, a bigint, an object that is not an \<^verbatim>\<open>Error\<close>) is \<open>OtherValue r\<close>, where \<open>r\<close> is
  what converting it to a string gives: the text (\<^verbatim>\<open>"42"\<close> for the number 42,
  \<^verbatim>\<open>"[object Object]"\<close> for \<^verbatim>\<open>{}\<close>), or \<open>None\<close> when the conversion throws a
  \<^verbatim>\<open>TypeError\<close>, as it does for \<^verbatim>\<open>Object.create(null)\<close> and for an object whose own
  \<^verbatim>\<open>toString\<close> throws.
\<close>

datatype nonError =
    StringValue string
  | BooleanValue bool
  | NullValue
  | UndefinedValue
  | SymbolValue "string option"
  | OtherValue "string option"

datatype thrown =
    ErrorInstance string
  | NonError nonError

text \<open>
  The conversion \<^verbatim>\<open>ToString\<close> of the language, which a template literal \<^verbatim>\<open>`${error}`\<close>
  applies: \<open>None\<close> when it throws a \<^verbatim>\<open>TypeError\<close>. It throws for every symbol.
\<close>

fun ToString :: "nonError \<Rightarrow> string option" where
  "ToString (StringValue s) = Some s"
| "ToString (BooleanValue b) = Some (if b then ''true'' else ''false'')"
| "ToString NullValue = Some ''null''"
| "ToString UndefinedValue = Some ''undefined''"
| "ToString (SymbolValue d) = None"
| "ToString (OtherValue r) = r"

text \<open>
  \<^verbatim>\<open>String(error)\<close>: a symbol gives \<^verbatim>\<open>Symbol(description)\<close>, every other value goes
  through \<^verbatim>\<open>ToString\<close>.
\<close>

fun String_js :: "nonError \<Rightarrow> string option" where
  "String_js (SymbolValue None) = Some ''Symbol()''"
| "String_js (SymbolValue (Some d)) = Some (''Symbol('' @ d @ '')'')"
| "String_js v = ToString v"

text \<open>
  Whether \<^verbatim>\<open>`${error}`\<close> throws. For an \<^verbatim>\<open>Error\<close> the literal calls
  \<^verbatim>\<open>Error.prototype.toString\<close>, which returns a string.
\<close>

fun templateThrows :: "thrown \<Rightarrow> bool" where
  "templateThrows (ErrorInstance m) = False"
| "templateThrows (NonError v) = (ToString v = None)"

text \<open>
  \<^verbatim>\<open>error instanceof Error ? error.message : String(error)\<close>, \<open>None\<close> when \<^verbatim>\<open>String\<close>
  throws.
\<close>

fun errorText :: "thrown \<Rightarrow> string option" where
  "errorText (ErrorInstance m) = Some m"
| "errorText (NonError v) = String_js v"

subsection \<open>Requests, responses, the editor\<close>

text \<open>
  \<^verbatim>\<open>req.body\<close> after \<^verbatim>\<open>express.json()\<close>: each handler destructures the fields it needs.
\<close>

record 'i body =
  description :: "string option"
  images :: "'i list option"
  customId :: "string option"
  taskId :: "string option"
  message :: "string option"

text \<open>The three routes of \<^verbatim>\<open>setupRoutes\<close>.\<close>

datatype 'i request =
    GetHealth
  | PostTasksNew "'i body"
  | PostTasksContinue "'i body"

text \<open>
  The JSON objects the handlers send. \<open>NewTaskBody t c\<close> is
  \<^verbatim>\<open>{ success: true, taskId: t, customId: c }\<close> (a \<open>None\<close> task id is \<^verbatim>\<open>null\<close>, a \<open>None\<close>
  custom id is \<^verbatim>\<open>undefined\<close>), \<open>ContinueBody r\<close> is \<^verbatim>\<open>{ success: true, result: r }\<close>,
  \<open>ErrorBody e\<close> is \<^verbatim>\<open>{ error: e }\<close> and \<open>HealthBody\<close> is \<^verbatim>\<open>{ status: "ok" }\<close>.
\<close>

datatype 'r json =
    ErrorBody string
  | NewTaskBody "string option" "string option"
  | ContinueBody 'r
  | HealthBody

record 'r response =
  status :: nat
  json :: "'r json"

text \<open>
  A handler returns the response it sent, or \<open>None\<close> when an exception left it before it
  sent one.
\<close>

text \<open>
  The two commands sent through \<^verbatim>\<open>vscode.commands.executeCommand\<close>, with their argument
  objects: \<^verbatim>\<open>{ task, images }\<close> and \<^verbatim>\<open>{ taskId, message, images }\<close>.
\<close>

datatype 'i command =
    StartNewTask string "'i list"
  | AddMessageToTask string string "'i list"

text \<open>
  The editor is outside the repository: it is a parameter. Each command reads and updates
  the editor's own state \<open>'h\<close> and either returns (\<open>Inr\<close>) or throws (\<open>Inl\<close>).
\<close>

record ('h, 'i, 'r) host =
  startNewTask :: "string \<Rightarrow> 'i list \<Rightarrow> 'h \<Rightarrow> (thrown + string option) \<times> 'h"
  addMessageToTask :: "string \<Rightarrow> string \<Rightarrow> 'i list \<Rightarrow> 'h \<Rightarrow> (thrown + 'r) \<times> 'h"

text \<open>
  The state a request can touch: the alias map of the server, the editor's state, and the
  list of commands sent to the editor so far (oldest first), kept so that theorems can say
  which commands a handler sent.
\<close>

record ('h, 'i) server =
  taskIdMap :: "string \<rightharpoonup> string"
  hostState :: 'h
  executed :: "'i command list"

text \<open>\<^verbatim>\<open>new ApiServer()\<close>: the map starts empty.\<close>

definition newApiServer :: "'h \<Rightarrow> ('h, 'i) server" where
  "newApiServer h = \<lparr> taskIdMap = Map.empty, hostState = h, executed = [] \<rparr>"

text \<open>\<^verbatim>\<open>images || []\<close>\<close>

fun imagesOrEmpty :: "'i list option \<Rightarrow> 'i list" where
  "imagesOrEmpty None = []"
| "imagesOrEmpty (Some xs) = xs"

text \<open>\<^verbatim>\<open>customId || undefined\<close>\<close>

definition orUndefined :: "string option \<Rightarrow> string option" where
  "orUndefined c = (if truthy c then c else None)"

subsection \<open>The handlers\<close>

text \<open>
  The \<^verbatim>\<open>catch\<close> block, the same in both handlers but for the text it logs:
  \<^verbatim>\<open>
  Logger.log(`API error creating task: ${error}`)
  res.status(500).json({
      error: error instanceof Error ? error.message : String(error),
  })
  \<close>
  The template literal is evaluated first. When it throws, the exception leaves the
  handler: no response is sent and the promise the handler returned is rejected; the result
  is \<open>None\<close>. \<^verbatim>\<open>Logger.log\<close> is not part of the file; it is taken to return.
\<close>

definition catchBlock :: "thrown \<Rightarrow> 'r response option" where
  "catchBlock error =
    (if templateThrows error then None
     else case errorText error of
            None \<Rightarrow> None
          | Some text \<Rightarrow> Some \<lparr> status = 500, json = ErrorBody text \<rparr>)"

text \<open>
  \<^verbatim>\<open>handleNewTask\<close>. The only access to \<^verbatim>\<open>taskIdMap\<close> is the \<^verbatim>\<open>set\<close> after the
  \<^verbatim>\<open>await\<close>, so the handler is one step on the map even when requests overlap.
\<close>

definition handleNewTask ::
  "('h, 'i, 'r) host \<Rightarrow> 'i body \<Rightarrow> ('h, 'i) server \<Rightarrow> 'r response option \<times> ('h, 'i) server" where
  "handleNewTask h b s =
    (case description b of
       None \<Rightarrow> (Some \<lparr> status = 400, json = ErrorBody ''Task description is required'' \<rparr>, s)
     | Some d \<Rightarrow>
        if d = [] then (Some \<lparr> status = 400, json = ErrorBody ''Task description is required'' \<rparr>, s)
        else
          let imgs = imagesOrEmpty (images b);
              (outcome, hs) = startNewTask h d imgs (hostState s);
              s1 = s\<lparr> hostState := hs, executed := executed s @ [StartNewTask d imgs] \<rparr>
          in case outcome of
               Inl error \<Rightarrow> (catchBlock error, s1)
             | Inr tid \<Rightarrow>
                 let s2 = (case (customId b, tid) of
                             (Some c, Some t) \<Rightarrow>
                               if c \<noteq> [] \<and> t \<noteq> []
                               then s1\<lparr> taskIdMap := (taskIdMap s1)(c \<mapsto> t) \<rparr>
                               else s1
                           | _ \<Rightarrow> s1)
                 in (Some \<lparr> status = 200, json = NewTaskBody tid (orUndefined (customId b)) \<rparr>, s2))"

text \<open>
  The lookup of \<^verbatim>\<open>handleContinueTask\<close>:
  \<^verbatim>\<open>
  let actualTaskId = taskId
  if (customId && !taskId && this.taskIdMap.has(customId)) {
      actualTaskId = this.taskIdMap.get(customId)!
  }
  \<close>
\<close>

definition actualTaskId :: "(string \<rightharpoonup> string) \<Rightarrow> 'i body \<Rightarrow> string option" where
  "actualTaskId m b =
    (case customId b of
       None \<Rightarrow> taskId b
     | Some c \<Rightarrow>
        if c \<noteq> [] \<and> \<not> truthy (taskId b) \<and> c \<in> dom m then m c else taskId b)"

text \<open>
  \<^verbatim>\<open>handleContinueTask\<close>. The map is read before the \<^verbatim>\<open>await\<close> and never afterwards.
\<close>

definition handleContinueTask ::
  "('h, 'i, 'r) host \<Rightarrow> 'i body \<Rightarrow> ('h, 'i) server \<Rightarrow> 'r response option \<times> ('h, 'i) server" where
  "handleContinueTask h b s =
    (case message b of
       None \<Rightarrow> (Some \<lparr> status = 400, json = ErrorBody ''Message is required'' \<rparr>, s)
     | Some msg \<Rightarrow>
        if msg = [] then (Some \<lparr> status = 400, json = ErrorBody ''Message is required'' \<rparr>, s)
        else
          (case actualTaskId (taskIdMap s) b of
             None \<Rightarrow> (Some \<lparr> status = 400, json = ErrorBody ''Valid taskId or customId is required'' \<rparr>, s)
           | Some t \<Rightarrow>
              if t = []
              then (Some \<lparr> status = 400, json = ErrorBody ''Valid taskId or customId is required'' \<rparr>, s)
              else
                let imgs = imagesOrEmpty (images b);
                    (outcome, hs) = addMessageToTask h t msg imgs (hostState s);
                    s1 = s\<lparr> hostState := hs, executed := executed s @ [AddMessageToTask t msg imgs] \<rparr>
                in case outcome of
                     Inl error \<Rightarrow> (catchBlock error, s1)
                   | Inr result \<Rightarrow> (Some \<lparr> status = 200, json = ContinueBody result \<rparr>, s1)))"

subsection \<open>Serving requests\<close>

text \<open>The routes of \<^verbatim>\<open>setupRoutes\<close>, and a server that handles a list of requests in order.\<close>

fun route ::
  "('h, 'i, 'r) host \<Rightarrow> 'i request \<Rightarrow> ('h, 'i) server \<Rightarrow> 'r response option \<times> ('h, 'i) server" where
  "route h GetHealth s = (Some \<lparr> status = 200, json = HealthBody \<rparr>, s)"
| "route h (PostTasksNew b) s = handleNewTask h b s"
| "route h (PostTasksContinue b) s = handleContinueTask h b s"

fun serve :: "('h, 'i, 'r) host \<Rightarrow> 'i request list \<Rightarrow> ('h, 'i) server \<Rightarrow> ('h, 'i) server" where
  "serve h [] s = s"
| "serve h (r # rs) s = serve h rs (snd (route h r s))"

subsection \<open>Predicates used in the statements\<close>

text \<open>A request that may bind the alias \<open>a\<close>: a new-task request carrying it as \<^verbatim>\<open>customId\<close>.\<close>

fun namesAlias :: "string \<Rightarrow> 'i request \<Rightarrow> bool" where
  "namesAlias a (PostTasksNew b) = (customId b = Some a)"
| "namesAlias a _ = False"



text \<open>
  The task ids a request binds to the alias \<open>a\<close>, read off the request and the response it
  got: a new-task request answered with \<^verbatim>\<open>{ success: true, taskId: t, customId: a }\<close>
  where \<open>t\<close> is a non-empty string. \<open>boundIds\<close> collects them over a list of requests, in the
  order they were served.
\<close>

fun recorded :: "string \<Rightarrow> 'i request \<Rightarrow> 'r response option \<Rightarrow> string list" where
  "recorded a (PostTasksNew b) (Some resp) =
     (case json resp of
        NewTaskBody (Some t) (Some c) \<Rightarrow> if c = a \<and> t \<noteq> [] then [t] else []
      | _ \<Rightarrow> [])"
| "recorded a _ resp = []"

fun boundIds ::
  "('h, 'i, 'r) host \<Rightarrow> string \<Rightarrow> 'i request list \<Rightarrow> ('h, 'i) server \<Rightarrow> string list" where
  "boundIds h a [] s = []"
| "boundIds h a (r # rs) s =
     recorded a r (fst (route h r s)) @ boundIds h a rs (snd (route h r s))"

subsection \<open>Example editors and bodies\<close>

text \<open>The body \<^verbatim>\<open>{}\<close>; the examples set the fields they send.\<close>

definition emptyBody :: "string body" where
  "emptyBody = \<lparr> description = None, images = None, customId = None, taskId = None, message = None \<rparr>"

text \<open>
  An editor that answers \<^verbatim>\<open>cline.startNewTask\<close> from a script of task ids (throwing when
  the script is used up) and answers \<^verbatim>\<open>cline.addMessageToTask\<close> by naming the task.
\<close>

definition scriptedEditor :: "(string option list, string, string) host" where
  "scriptedEditor =
    \<lparr> startNewTask = (\<lambda>d imgs q. case q of
          [] \<Rightarrow> (Inl (ErrorInstance ''No active Cline instance found''), [])
        | t # q' \<Rightarrow> (Inr t, q')),
      addMessageToTask = (\<lambda>t m imgs q. (Inr (''sent to '' @ t), q)) \<rparr>"


text \<open>
  The server after \<^verbatim>\<open>POST /api/tasks/new {description: "fix bug", customId: "c1"}\<close> was
  answered by an editor that returned \<^verbatim>\<open>"T1"\<close> and will return \<^verbatim>\<open>"T2"\<close> next.
\<close>

definition exampleServer :: "(string option list, string) server" where
  "exampleServer =
     serve scriptedEditor
       [PostTasksNew (emptyBody\<lparr>description := Some ''fix bug'', customId := Some ''c1''\<rparr>)]
       (newApiServer [Some ''T1'', Some ''T2''])"

section \<open>Properties\<close>

subsection \<open>What each handler does to the map and to the command list\<close>

lemmas run_defs =
  handleNewTask_def handleContinueTask_def actualTaskId_def orUndefined_def newApiServer_def
  emptyBody_def scriptedEditor_def exampleServer_def catchBlock_def Let_def

lemma catchBlock_not_success: "catchBlock e \<noteq> Some \<lparr> status = 200, json = j \<rparr>"
  by (simp add: catchBlock_def split: option.splits)

lemma recorded_catchBlock: "recorded a r (catchBlock e) = []"
  by (cases r) (simp_all add: catchBlock_def split: option.splits)

lemma continue_map: "taskIdMap (snd (handleContinueTask h b s)) = taskIdMap s"
  by (simp add: handleContinueTask_def Let_def split: option.splits prod.splits sum.splits)

lemma newTask_map:
  "taskIdMap (snd (handleNewTask h b s)) = taskIdMap s \<or>
   (\<exists>c t. customId b = Some c \<and> c \<noteq> [] \<and> t \<noteq> [] \<and>
      taskIdMap (snd (handleNewTask h b s)) = (taskIdMap s)(c \<mapsto> t))"
  by (auto simp: handleNewTask_def Let_def split: option.splits prod.splits sum.splits)

lemma route_map:
  "taskIdMap (snd (route h r s)) = taskIdMap s \<or>
   (\<exists>c t. namesAlias c r \<and> c \<noteq> [] \<and> t \<noteq> [] \<and>
      taskIdMap (snd (route h r s)) = (taskIdMap s)(c \<mapsto> t))"
proof (cases r)
  case GetHealth
  then show ?thesis by simp
next
  case (PostTasksNew b)
  then show ?thesis using newTask_map [of h b s] by auto
next
  case (PostTasksContinue b)
  then show ?thesis by (simp add: continue_map)
qed




lemma route_keeps_alias:
  "\<not> namesAlias a r \<Longrightarrow> taskIdMap (snd (route h r s)) a = taskIdMap s a"
  using route_map [of h r s] by (cases r) (auto simp: continue_map)

lemma serve_keeps_alias:
  "\<forall>r \<in> set rs. \<not> namesAlias a r \<Longrightarrow> taskIdMap (serve h rs s) a = taskIdMap s a"
  by (induction rs arbitrary: s) (simp_all add: route_keeps_alias)

lemma route_dom: "dom (taskIdMap s) \<subseteq> dom (taskIdMap (snd (route h r s)))"
  using route_map [of h r s] by auto

lemma serve_dom: "dom (taskIdMap s) \<subseteq> dom (taskIdMap (serve h rs s))"
proof (induction rs arbitrary: s)
  case Nil
  show ?case by simp
next
  case (Cons r rs)
  have "dom (taskIdMap s) \<subseteq> dom (taskIdMap (snd (route h r s)))" by (rule route_dom)
  also have "\<dots> \<subseteq> dom (taskIdMap (serve h rs (snd (route h r s))))" by (rule Cons.IH)
  finally show ?case by simp
qed

lemma newTask_response_binds:
  assumes "fst (handleNewTask h b s) = Some \<lparr> status = 200, json = NewTaskBody (Some t) (Some a) \<rparr>"
    and "t \<noteq> []"
  shows "customId b = Some a \<and> a \<noteq> [] \<and>
         taskIdMap (snd (handleNewTask h b s)) = (taskIdMap s)(a \<mapsto> t)"
  using assms
  by (auto simp: handleNewTask_def Let_def orUndefined_def catchBlock_not_success
           split: option.splits prod.splits sum.splits if_splits)

lemma continue_sends:
  assumes "message b = Some m" and "m \<noteq> []"
    and "actualTaskId (taskIdMap s) b = Some t" and "t \<noteq> []"
  shows "executed (snd (handleContinueTask h b s)) =
         executed s @ [AddMessageToTask t m (imagesOrEmpty (images b))]"
  using assms
  by (simp add: handleContinueTask_def Let_def split: prod.splits sum.splits)






lemma route_recorded:
  "taskIdMap (snd (route h r s)) a =
     (if recorded a r (fst (route h r s)) = [] then taskIdMap s a
      else Some (last (recorded a r (fst (route h r s)))))"
proof (cases r)
  case GetHealth
  then show ?thesis by simp
next
  case (PostTasksNew b)
  then show ?thesis
    by (auto simp: handleNewTask_def Let_def orUndefined_def recorded_catchBlock
           split: option.splits prod.splits sum.splits if_splits)
next
  case (PostTasksContinue b)
  then show ?thesis by (simp add: continue_map)
qed

lemma serve_boundIds:
  "taskIdMap (serve h rs s) a =
     (if boundIds h a rs s = [] then taskIdMap s a else Some (last (boundIds h a rs s)))"
proof (induction rs arbitrary: s)
  case Nil
  show ?case by simp
next
  case (Cons r rs)
  show ?case
    using Cons.IH [of "snd (route h r s)"] route_recorded [of h r s a]
    by (simp split: if_splits)
qed

subsection \<open>Creating a task, then continuing it by alias\<close>




subsection \<open>Which task a continue request reaches\<close>




subsection \<open>When a new task binds its alias\<close>

text \<open>
  C3, in the form that holds of the code. For a new-task request that passes validation and
  whose editor command has run: when the editor returns (any task id, \<^verbatim>\<open>null\<close> included)
  the response is 200 with \<^verbatim>\<open>success: true\<close> and that task id; the binding of the alias
  to the task id is recorded when the alias supplied is a non-empty string and the editor
  returned a non-empty string; in every other case (no alias or an empty one, \<^verbatim>\<open>null\<close> or
  the empty string returned, the editor threw) the map is left as it was. So a \<^verbatim>\<open>null\<close>
  task id gives a success response carrying \<^verbatim>\<open>taskId: null\<close> and no binding.
\<close>

theorem new_task_binds_when_both_nonempty:
  assumes "description b = Some d" and "d \<noteq> []"
    and "startNewTask h d (imagesOrEmpty (images b)) (hostState s) = (outcome, hs)"
  shows "(outcome = Inr tid \<longrightarrow>
            fst (handleNewTask h b s) =
              Some \<lparr> status = 200, json = NewTaskBody tid (orUndefined (customId b)) \<rparr>)
       \<and> (outcome = Inr (Some t) \<and> t \<noteq> [] \<and> customId b = Some c \<and> c \<noteq> [] \<longrightarrow>
            taskIdMap (snd (handleNewTask h b s)) = (taskIdMap s)(c \<mapsto> t))
       \<and> (\<not> truthy (customId b) \<or> \<not> truthy (case outcome of Inl e \<Rightarrow> None | Inr i \<Rightarrow> i) \<longrightarrow>
            taskIdMap (snd (handleNewTask h b s)) = taskIdMap s)"
  using assms
  by (auto simp: handleNewTask_def Let_def split: option.splits sum.splits)

theorem new_task_binds_when_both_nonempty_witness:
  "fst (handleNewTask scriptedEditor
      (emptyBody\<lparr>description := Some ''fix bug'', customId := Some ''c1''\<rparr>)
      (newApiServer [Some ''T1'']))
     = Some \<lparr> status = 200, json = NewTaskBody (Some ''T1'') (Some ''c1'') \<rparr>
   \<and> taskIdMap (snd (handleNewTask scriptedEditor
      (emptyBody\<lparr>description := Some ''fix bug'', customId := Some ''c1''\<rparr>)
      (newApiServer [Some ''T1'']))) ''c1'' = Some ''T1''
   \<and> fst (handleNewTask scriptedEditor
      (emptyBody\<lparr>description := Some ''fix bug'', customId := Some ''c1''\<rparr>)
      (newApiServer [None]))
     = Some \<lparr> status = 200, json = NewTaskBody None (Some ''c1'') \<rparr>
   \<and> taskIdMap (snd (handleNewTask scriptedEditor
      (emptyBody\<lparr>description := Some ''fix bug'', customId := Some ''c1''\<rparr>)
      (newApiServer [None]))) ''c1'' = None"
proof -
  let ?b = "emptyBody\<lparr>description := Some ''fix bug'', customId := Some ''c1''\<rparr>"
  have d: "description ?b = Some ''fix bug''" and ne: "''fix bug'' \<noteq> []"
    by (simp_all add: emptyBody_def)
  have run1: "startNewTask scriptedEditor ''fix bug'' (imagesOrEmpty (images ?b))
      (hostState (newApiServer [Some ''T1''] :: (string option list, string) server))
      = (Inr (Some ''T1''), [])"
    and run2: "startNewTask scriptedEditor ''fix bug'' (imagesOrEmpty (images ?b))
      (hostState (newApiServer [None] :: (string option list, string) server))
      = (Inr None, [])"
    by (simp_all add: run_defs)
  from new_task_binds_when_both_nonempty [OF d ne run1, of "Some ''T1''" "''T1''" "''c1''"]
       new_task_binds_when_both_nonempty [OF d ne run2, of None _ _]
  show ?thesis by (simp add: run_defs)
qed

text \<open>
  An alias supplied together with a task id that is not \<^verbatim>\<open>null\<close> does not always give a
  binding: when the editor returns the empty string, or when the alias supplied is the
  empty string, the response is a success and the alias is not bound.
\<close>

theorem new_task_binds_counterexample:
  "fst (handleNewTask scriptedEditor
      (emptyBody\<lparr>description := Some ''fix bug'', customId := Some ''c1''\<rparr>)
      (newApiServer [Some '''']))
     = Some \<lparr> status = 200, json = NewTaskBody (Some '''') (Some ''c1'') \<rparr>
   \<and> taskIdMap (snd (handleNewTask scriptedEditor
      (emptyBody\<lparr>description := Some ''fix bug'', customId := Some ''c1''\<rparr>)
      (newApiServer [Some '''']))) ''c1'' = None
   \<and> fst (handleNewTask scriptedEditor
      (emptyBody\<lparr>description := Some ''fix bug'', customId := Some ''''\<rparr>)
      (newApiServer [Some ''T1'']))
     = Some \<lparr> status = 200, json = NewTaskBody (Some ''T1'') None \<rparr>
   \<and> taskIdMap (snd (handleNewTask scriptedEditor
      (emptyBody\<lparr>description := Some ''fix bug'', customId := Some ''''\<rparr>)
      (newApiServer [Some ''T1'']))) '''' = None"
  by (simp add: run_defs)

subsection \<open>Binding an alias twice\<close>

text \<open>
  C4. When two new-task requests bind the same alias (each answered 200 with that alias and
  a non-empty task id), whatever is served between them, the second \<^verbatim>\<open>set\<close> replaces the
  entry of the alias and changes nothing else; as long as no later new-task request carries
  the alias, the map holds the second task id for it, and a continue request by that alias
  reaches the second task. The map is a function of the alias, so it never holds two task
  ids for one alias.
\<close>

theorem second_binding_overwrites:
  assumes "fst (handleNewTask h b1 s0) = Some \<lparr> status = 200, json = NewTaskBody (Some t1) (Some a) \<rparr>"
    and "t1 \<noteq> []"
    and "s1 = serve h mid (snd (handleNewTask h b1 s0))"
    and "fst (handleNewTask h b2 s1) = Some \<lparr> status = 200, json = NewTaskBody (Some t2) (Some a) \<rparr>"
    and "t2 \<noteq> []"
    and "s2 = serve h rs (snd (handleNewTask h b2 s1))"
    and "\<forall>r \<in> set rs. \<not> namesAlias a r"
    and "message b = Some m" and "m \<noteq> []" and "taskId b = None" and "customId b = Some a"
  shows "taskIdMap (snd (handleNewTask h b1 s0)) a = Some t1
       \<and> taskIdMap (snd (handleNewTask h b2 s1)) = (taskIdMap s1)(a \<mapsto> t2)
       \<and> taskIdMap s2 a = Some t2
       \<and> executed (snd (handleContinueTask h b s2)) =
           executed s2 @ [AddMessageToTask t2 m (imagesOrEmpty (images b))]"
proof -
  from newTask_response_binds [OF assms(1,2)]
  have first: "taskIdMap (snd (handleNewTask h b1 s0)) a = Some t1" by simp
  from newTask_response_binds [OF assms(4,5)]
  have ne: "a \<noteq> []"
    and second: "taskIdMap (snd (handleNewTask h b2 s1)) = (taskIdMap s1)(a \<mapsto> t2)"
    by simp_all
  from second assms(6,7) have final: "taskIdMap s2 a = Some t2"
    by (simp add: serve_keeps_alias)
  with ne assms(10,11) have "actualTaskId (taskIdMap s2) b = Some t2"
    by (auto simp: actualTaskId_def)
  from continue_sends [OF assms(8,9) this assms(5)] first second final show ?thesis by simp
qed

theorem second_binding_overwrites_witness:
  "taskIdMap exampleServer ''c1'' = Some ''T1''
   \<and> fst (handleNewTask scriptedEditor
        (emptyBody\<lparr>description := Some ''again'', customId := Some ''c1''\<rparr>)
        (serve scriptedEditor [GetHealth] exampleServer))
     = Some \<lparr> status = 200, json = NewTaskBody (Some ''T2'') (Some ''c1'') \<rparr>
   \<and> executed (snd (handleContinueTask scriptedEditor
        (emptyBody\<lparr>customId := Some ''c1'', message := Some ''hi''\<rparr>)
        (serve scriptedEditor [GetHealth]
          (snd (handleNewTask scriptedEditor
            (emptyBody\<lparr>description := Some ''again'', customId := Some ''c1''\<rparr>)
            (serve scriptedEditor [GetHealth] exampleServer))))))
     = [StartNewTask ''fix bug'' [], StartNewTask ''again'' [],
        AddMessageToTask ''T2'' ''hi'' []]"
proof -
  let ?b1 = "emptyBody\<lparr>description := Some ''fix bug'', customId := Some ''c1''\<rparr>"
  let ?s0 = "newApiServer [Some ''T1'', Some ''T2''] :: (string option list, string) server"
  let ?b2 = "emptyBody\<lparr>description := Some ''again'', customId := Some ''c1''\<rparr>"
  let ?b = "emptyBody\<lparr>customId := Some ''c1'', message := Some ''hi''\<rparr>"
  let ?s1 = "serve scriptedEditor [GetHealth] (snd (handleNewTask scriptedEditor ?b1 ?s0))"
  let ?s2 = "serve scriptedEditor [GetHealth] (snd (handleNewTask scriptedEditor ?b2 ?s1))"
  have r1: "fst (handleNewTask scriptedEditor ?b1 ?s0)
      = Some \<lparr> status = 200, json = NewTaskBody (Some ''T1'') (Some ''c1'') \<rparr>"
    and r2: "fst (handleNewTask scriptedEditor ?b2 ?s1)
      = Some \<lparr> status = 200, json = NewTaskBody (Some ''T2'') (Some ''c1'') \<rparr>"
    and ex: "executed ?s2 = [StartNewTask ''fix bug'' [], StartNewTask ''again'' []]"
    and same: "exampleServer = snd (handleNewTask scriptedEditor ?b1 ?s0)"
    by (simp_all add: run_defs)
  have "executed (snd (handleContinueTask scriptedEditor ?b ?s2))
      = executed ?s2 @ [AddMessageToTask ''T2'' ''hi'' (imagesOrEmpty (images ?b))]"
    using second_binding_overwrites
      [of scriptedEditor ?b1 ?s0 "''T1''" "''c1''" ?s1 "[GetHealth]" ?b2 "''T2''" ?s2
          "[GetHealth]" ?b "''hi''", OF r1 _ _ r2]
    by (simp add: emptyBody_def)
  with r2 ex same show ?thesis by (simp add: run_defs)
qed

subsection \<open>Validation failures\<close>

text \<open>
  C5. A new-task request whose description is absent or empty is answered 400 with the error
  \<^verbatim>\<open>Task description is required\<close>; the whole state is left as it was: the map, the
  editor's state and the list of commands sent, so no command reached the editor.
\<close>

theorem new_task_requires_description:
  "\<not> truthy (description b) \<Longrightarrow>
   handleNewTask h b s = (Some \<lparr> status = 400, json = ErrorBody ''Task description is required'' \<rparr>, s)"
  by (cases "description b") (simp_all add: handleNewTask_def)

theorem new_task_requires_description_witness:
  "handleNewTask scriptedEditor (emptyBody\<lparr>customId := Some ''c2''\<rparr>) exampleServer
     = (Some \<lparr> status = 400, json = ErrorBody ''Task description is required'' \<rparr>, exampleServer)
   \<and> handleNewTask scriptedEditor
        (emptyBody\<lparr>description := Some '''', customId := Some ''c2''\<rparr>) exampleServer
     = (Some \<lparr> status = 400, json = ErrorBody ''Task description is required'' \<rparr>, exampleServer)"
  using new_task_requires_description
          [of "emptyBody\<lparr>customId := Some ''c2''\<rparr>" scriptedEditor exampleServer]
        new_task_requires_description
          [of "emptyBody\<lparr>description := Some '''', customId := Some ''c2''\<rparr>"
              scriptedEditor exampleServer]
  by (simp add: emptyBody_def)

text \<open>
  C6. A continue request with a non-empty message, no \<^verbatim>\<open>taskId\<close>, and either no alias
  or an alias that the map does not bind is answered 400 with the error
  \<^verbatim>\<open>Valid taskId or customId is required\<close>, and the whole state is left as it was, so no
  command reached the editor. In particular \<^verbatim>\<open>{message: "hi"}\<close> sent to a new server gets
  that answer, whatever the editor.
\<close>

theorem continue_requires_target:
  "(message b = Some m \<and> m \<noteq> [] \<and> taskId b = None \<and>
      (customId b = None \<or> (customId b = Some a \<and> taskIdMap s a = None))
    \<longrightarrow> handleContinueTask h b s =
          (Some \<lparr> status = 400, json = ErrorBody ''Valid taskId or customId is required'' \<rparr>, s))
   \<and> handleContinueTask h (emptyBody\<lparr>message := Some ''hi''\<rparr>) (newApiServer h0) =
          (Some \<lparr> status = 400, json = ErrorBody ''Valid taskId or customId is required'' \<rparr>, newApiServer h0)"
  by (auto simp: handleContinueTask_def actualTaskId_def emptyBody_def newApiServer_def domIff)

theorem continue_requires_target_witness:
  "taskIdMap exampleServer ''zz'' = None
   \<and> handleContinueTask scriptedEditor
        (emptyBody\<lparr>customId := Some ''zz'', message := Some ''hi''\<rparr>) exampleServer
     = (Some \<lparr> status = 400, json = ErrorBody ''Valid taskId or customId is required'' \<rparr>,
        exampleServer)"
proof -
  have zz: "taskIdMap exampleServer ''zz'' = None"
    by (simp add: run_defs)
  with continue_requires_target
         [of "emptyBody\<lparr>customId := Some ''zz'', message := Some ''hi''\<rparr>" "''hi''" "''zz''"
             exampleServer scriptedEditor]
  show ?thesis by (simp add: emptyBody_def)
qed

subsection \<open>Failures of the editor\<close>




subsection \<open>The map over the life of the server\<close>

text \<open>
  C8. Over every list of requests (health checks, new tasks, continue requests) served from
  any state, no binding is removed: the aliases bound before are bound afterwards, and an
  alias bound to some task id is bound to a task id afterwards. The task id it is bound to
  is the one most recently bound: the last of the ids bound to the alias while the list
  was served, and the id it had before when the list bound none.
\<close>

theorem bindings_never_removed:
  "taskIdMap (serve h rs s) a =
     (if boundIds h a rs s = [] then taskIdMap s a else Some (last (boundIds h a rs s)))
   \<and> (taskIdMap s a = Some t \<longrightarrow> (\<exists>t'. taskIdMap (serve h rs s) a = Some t'))
   \<and> dom (taskIdMap s) \<subseteq> dom (taskIdMap (serve h rs s))"
  using serve_boundIds [of h rs s a] serve_dom [of s h rs] by auto

theorem bindings_never_removed_witness:
  "taskIdMap exampleServer ''c1'' = Some ''T1''
   \<and> boundIds scriptedEditor ''c1''
        [PostTasksContinue (emptyBody\<lparr>customId := Some ''c1'', message := Some ''hi''\<rparr>),
         PostTasksNew (emptyBody\<lparr>description := Some ''again'', customId := Some ''c1''\<rparr>),
         PostTasksNew (emptyBody\<lparr>description := Some ''once more'', customId := Some ''c1''\<rparr>),
         GetHealth]
        exampleServer = [''T2'']
   \<and> taskIdMap (serve scriptedEditor
        [PostTasksContinue (emptyBody\<lparr>customId := Some ''c1'', message := Some ''hi''\<rparr>),
         PostTasksNew (emptyBody\<lparr>description := Some ''again'', customId := Some ''c1''\<rparr>),
         PostTasksNew (emptyBody\<lparr>description := Some ''once more'', customId := Some ''c1''\<rparr>),
         GetHealth]
        exampleServer) ''c1'' = Some ''T2''"
  using bindings_never_removed
          [of scriptedEditor
              "[PostTasksContinue (emptyBody\<lparr>customId := Some ''c1'', message := Some ''hi''\<rparr>),
                PostTasksNew (emptyBody\<lparr>description := Some ''again'', customId := Some ''c1''\<rparr>),
                PostTasksNew (emptyBody\<lparr>description := Some ''once more'', customId := Some ''c1''\<rparr>),
                GetHealth]"
              exampleServer "''c1''" "''T1''"]
  by (simp add: run_defs)

subsection \<open>An empty task id in a continue request\<close>



subsection \<open>Continue requests and the map\<close>

text \<open>
  C10. A continue request never changes the alias map, whatever its outcome: refused for its
  message, refused for its target, answered by the editor, or failed in the editor.
\<close>

theorem continue_leaves_map_unchanged: "taskIdMap (snd (handleContinueTask h b s)) = taskIdMap s"
  by (rule continue_map)

end
